theory Spec2Isabelle
  imports Complex_Main "HOL-Library.Word" "HOL-Library.Sublist"
begin

section \<open>Python values used by \<open>tools/dfu.py\<close>\<close>

text \<open>
  Exceptions are values.  Integers are Python's unbounded \<open>int\<close>, bytes are
  \<open>8 word\<close>, strings are lists of characters (code points below 256).
\<close>

datatype py_error =
    ValueError
  | KeyError char
  | IndexError
  | ZeroDivisionError
  | TypeError string
  | StructError
  | NameError string
  | RuntimeError string
  | PyException string

type_synonym byte = "8 word"

subsection \<open>\<open>str.split\<close>, \<open>str.strip\<close>, \<open>str.upper\<close>\<close>

text \<open>\<open>s.split(sep)\<close> for a one-character separator: never empty, \<open>''.split('/') == ['']\<close>.\<close>

fun split_on :: "char \<Rightarrow> string \<Rightarrow> string list" where
  "split_on sep [] = [[]]"
| "split_on sep (c # cs) =
     (if c = sep then [] # split_on sep cs
      else (case split_on sep cs of
              [] \<Rightarrow> [[c]]
            | w # ws \<Rightarrow> (c # w) # ws))"

text \<open>Characters \<open>str.isspace\<close> accepts, among the code points below 256.\<close>

definition py_isspace :: "char \<Rightarrow> bool" where
  "py_isspace c =
     (let n = (of_char c :: nat)
      in (9 \<le> n \<and> n \<le> 13) \<or> (28 \<le> n \<and> n \<le> 32) \<or> n = 133 \<or> n = 160)"

definition strip_while :: "(char \<Rightarrow> bool) \<Rightarrow> string \<Rightarrow> string" where
  "strip_while p s = rev (dropWhile p (rev (dropWhile p s)))"

text \<open>\<open>s.strip()\<close> and \<open>s.strip('@')\<close>.\<close>

definition py_strip :: "string \<Rightarrow> string" where
  "py_strip s = strip_while py_isspace s"

definition py_strip_char :: "char \<Rightarrow> string \<Rightarrow> string" where
  "py_strip_char x s = strip_while (\<lambda>c. c = x) s"

text \<open>
  \<open>c.upper()\<close> on one character.  Only the ASCII letters are mapped: no other code
  point below 256 has \<open>' '\<close>, \<open>'K'\<close> or \<open>'M'\<close> as its upper case, and that is all
  the lookup in \<open>SIZE_MULTIPLIERS\<close> asks.
\<close>

definition py_upper :: "char \<Rightarrow> char" where
  "py_upper c =
     (let n = (of_char c :: nat)
      in if 97 \<le> n \<and> n \<le> 122 then char_of (n - 32) else c)"

subsection \<open>\<open>int(s)\<close> and \<open>int(s, 0)\<close>\<close>

definition digit_value :: "char \<Rightarrow> nat option" where
  "digit_value c =
     (let n = (of_char c :: nat)
      in if 48 \<le> n \<and> n \<le> 57 then Some (n - 48)
         else if 97 \<le> n \<and> n \<le> 122 then Some (n - 87)
         else if 65 \<le> n \<and> n \<le> 90 then Some (n - 55)
         else None)"

text \<open>
  The digits of a literal in the given base; one underscore may stand between two
  digits, never last and never doubled.
\<close>

fun parse_digits :: "nat \<Rightarrow> bool \<Rightarrow> nat \<Rightarrow> string \<Rightarrow> nat option" where
  "parse_digits base prev_us acc [] = (if prev_us then None else Some acc)"
| "parse_digits base prev_us acc (c # cs) =
     (if c = CHR ''_'' then (if prev_us then None else parse_digits base True acc cs)
      else (case digit_value c of
              None \<Rightarrow> None
            | Some d \<Rightarrow> if d < base then parse_digits base False (acc * base + d) cs
                        else None))"

text \<open>A literal is not empty and does not start with an underscore.\<close>

definition parse_literal :: "nat \<Rightarrow> string \<Rightarrow> nat option" where
  "parse_literal base s =
     (case s of
        [] \<Rightarrow> None
      | c # cs \<Rightarrow> if c = CHR ''_'' then None else parse_digits base False 0 s)"

definition split_sign :: "string \<Rightarrow> bool \<times> string" where
  "split_sign s =
     (case s of
        [] \<Rightarrow> (False, [])
      | c # cs \<Rightarrow> if c = CHR ''-'' then (True, cs)
                  else if c = CHR ''+'' then (False, cs)
                  else (False, s))"

definition signed :: "bool \<Rightarrow> nat option \<Rightarrow> py_error + int" where
  "signed neg r =
     (case r of
        None \<Rightarrow> Inl ValueError
      | Some n \<Rightarrow> Inr (if neg then - int n else int n))"

text \<open>
  The whitespace \<open>int\<close> skips around a literal.  Unlike \<open>str.strip\<close> it does not
  take the separators \<open>0x1C\<close> to \<open>0x1F\<close> for whitespace.
\<close>

definition int_isspace :: "char \<Rightarrow> bool" where
  "int_isspace c =
     (let n = (of_char c :: nat)
      in (9 \<le> n \<and> n \<le> 13) \<or> n = 32 \<or> n = 133 \<or> n = 160)"

text \<open>\<open>int(s)\<close>: surrounding whitespace, a sign, a decimal literal.\<close>

definition py_int :: "string \<Rightarrow> py_error + int" where
  "py_int s =
     (case split_sign (strip_while int_isspace s) of
        (neg, u) \<Rightarrow> signed neg (parse_literal 10 u))"

text \<open>After \<open>0x\<close>, \<open>0o\<close> or \<open>0b\<close> one underscore may come before the digits.\<close>

definition parse_prefixed :: "nat \<Rightarrow> string \<Rightarrow> nat option" where
  "parse_prefixed base s =
     parse_literal base (case s of [] \<Rightarrow> [] | c # cs \<Rightarrow> if c = CHR ''_'' then cs else s)"

text \<open>
  \<open>int(s, 0)\<close>: the base follows the prefix; a decimal literal with a leading zero is
  accepted only when its value is zero.
\<close>

definition parse_base0 :: "string \<Rightarrow> nat option" where
  "parse_base0 u =
     (case u of
        c # x # rest \<Rightarrow>
          if c = CHR ''0'' then
            (if x = CHR ''x'' \<or> x = CHR ''X'' then parse_prefixed 16 rest
             else if x = CHR ''o'' \<or> x = CHR ''O'' then parse_prefixed 8 rest
             else if x = CHR ''b'' \<or> x = CHR ''B'' then parse_prefixed 2 rest
             else (case parse_literal 10 u of
                     None \<Rightarrow> None
                   | Some n \<Rightarrow> if n = 0 then Some 0 else None))
          else parse_literal 10 u
      | _ \<Rightarrow> parse_literal 10 u)"

definition py_int0 :: "string \<Rightarrow> py_error + int" where
  "py_int0 s =
     (case split_sign (strip_while int_isspace s) of
        (neg, u) \<Rightarrow> signed neg (parse_base0 u))"

section \<open>Sector Map Builder: \<open>get_device_sectors\<close>\<close>

text \<open>A sector is the dictionary \<open>get_device_sectors\<close> yields, one field per key.\<close>

record sector =
  sec_name :: string
  sec_alt :: int
  sec_baseaddr :: int
  sec_addr :: int
  sec_len :: int
  sec_mode :: char

definition SIZE_MULTIPLIERS :: "char \<Rightarrow> int option" where
  "SIZE_MULTIPLIERS c =
     (if c = CHR '' '' then Some 1
      else if c = CHR ''K'' then Some 1024
      else if c = CHR ''M'' then Some (1024 * 1024)
      else None)"

definition MAX_TRANSFER_SIZE :: int where
  "MAX_TRANSFER_SIZE = 2048"

text \<open>
  \<open>repeat, size = map(int, fields)\<close>: the fields are converted one by one while the
  tuple is unpacked, so a field that is not a number raises before the count is found
  wrong.
\<close>

definition unpack_repeat_size :: "string list \<Rightarrow> py_error + int \<times> int" where
  "unpack_repeat_size fs =
     (case fs of
        [] \<Rightarrow> Inl ValueError
      | a # fs1 \<Rightarrow>
          (case py_int a of
             Inl e \<Rightarrow> Inl e
           | Inr r \<Rightarrow>
               (case fs1 of
                  [] \<Rightarrow> Inl ValueError
                | b # fs2 \<Rightarrow>
                    (case py_int b of
                       Inl e \<Rightarrow> Inl e
                     | Inr s \<Rightarrow>
                         (case fs2 of
                            [] \<Rightarrow> Inr (r, s)
                          | c # fs3 \<Rightarrow>
                              (case py_int c of
                                 Inl e \<Rightarrow> Inl e
                               | Inr x \<Rightarrow> Inl ValueError))))))"

text \<open>Lines 53 to 55: one layout term gives \<open>(repeat, size, mode)\<close>.\<close>

definition parse_term :: "string \<Rightarrow> py_error + int \<times> int \<times> char" where
  "parse_term t =
     (case unpack_repeat_size (split_on CHR ''*'' (take (length t - 2) t)) of
        Inl e \<Rightarrow> Inl e
      | Inr (repeat, sz) \<Rightarrow>
          if length t < 2 then Inl IndexError
          else (case SIZE_MULTIPLIERS (py_upper (t ! (length t - 2))) of
                  None \<Rightarrow> Inl (KeyError (py_upper (t ! (length t - 2))))
                | Some m \<Rightarrow> Inr (repeat, sz * m, last t)))"

text \<open>
  The \<open>while repeat > 0\<close> loop: the sectors it yields and the address cursor it
  leaves.
\<close>

function emit_repeat :: "(int \<Rightarrow> sector) \<Rightarrow> int \<Rightarrow> int \<Rightarrow> int \<Rightarrow> sector list \<times> int" where
  "emit_repeat mk a sz repeat =
     (if repeat > 0
      then (case emit_repeat mk (a + sz) sz (repeat - 1) of (ys, a') \<Rightarrow> (mk a # ys, a'))
      else ([], a))"
  by pat_completeness auto
termination
  by (relation "measure (\<lambda>(mk, a, sz, repeat). nat repeat)") auto

declare emit_repeat.simps [simp del]

definition mk_sector :: "string \<Rightarrow> int \<Rightarrow> int \<Rightarrow> int \<Rightarrow> char \<Rightarrow> int \<Rightarrow> sector" where
  "mk_sector label alt baseaddr sz m a =
     \<lparr>sec_name = py_strip_char CHR ''@'' (py_strip label), sec_alt = alt,
      sec_baseaddr = baseaddr, sec_addr = a, sec_len = sz, sec_mode = m\<rparr>"

text \<open>
  A generator is the list of what it yields and the exception that ends it, if one
  does.  The loop over \<open>layout.split(',')\<close>:
\<close>

fun layout_loop ::
  "string \<Rightarrow> int \<Rightarrow> int \<Rightarrow> int \<Rightarrow> string list \<Rightarrow> sector list \<times> py_error option" where
  "layout_loop label alt baseaddr a [] = ([], None)"
| "layout_loop label alt baseaddr a (t # ts) =
     (case parse_term t of
        Inl e \<Rightarrow> ([], Some e)
      | Inr (repeat, sz, m) \<Rightarrow>
          (case emit_repeat (mk_sector label alt baseaddr sz m) a sz repeat of
             (ys, a') \<Rightarrow>
               (case layout_loop label alt baseaddr a' ts of (zs, r) \<Rightarrow> (ys @ zs, r))))"

text \<open>The body of the loop over the alternates, for one \<open>(name, alt)\<close>.\<close>

definition alternate_sectors :: "string \<times> int \<Rightarrow> sector list \<times> py_error option" where
  "alternate_sectors na =
     (case na of
        (name, alt) \<Rightarrow>
          (case split_on CHR ''/'' name of
             [label, b, layout] \<Rightarrow>
               (case py_int0 b of
                  Inl e \<Rightarrow> ([], Some e)
                | Inr baseaddr \<Rightarrow>
                    layout_loop label alt baseaddr baseaddr (split_on CHR '','' layout))
           | _ \<Rightarrow> ([], Some ValueError)))"

text \<open>
  \<open>get_device_sectors\<close>, given what \<open>dfudev.alternates()\<close> returns: the pairs of a
  descriptor string and its alternate setting.
\<close>

fun get_device_sectors :: "(string \<times> int) list \<Rightarrow> sector list \<times> py_error option" where
  "get_device_sectors [] = ([], None)"
| "get_device_sectors (na # rest) =
     (case alternate_sectors na of
        (ys, Some e) \<Rightarrow> (ys, Some e)
      | (ys, None) \<Rightarrow> (case get_device_sectors rest of (zs, r) \<Rightarrow> (ys @ zs, r)))"

text \<open>\<open>list(g)\<close> of a generator: the exception, or everything it yielded.\<close>

definition py_list :: "'a list \<times> py_error option \<Rightarrow> py_error + 'a list" where
  "py_list g = (case g of (ys, None) \<Rightarrow> Inr ys | (ys, Some e) \<Rightarrow> Inl e)"

subsection \<open>Descriptor strings of the documented form\<close>



fun join_with :: "char \<Rightarrow> string list \<Rightarrow> string" where
  "join_with sep [] = []"
| "join_with sep [t] = t"
| "join_with sep (t # ts) = t @ sep # join_with sep ts"






subsection \<open>Malformed descriptor strings\<close>







section \<open>Target Selector: \<open>populate_sectors\<close>\<close>

subsection \<open>The firmware image\<close>

text \<open>
  Modelled from the spec: the class \<open>IntelHex\<close> of the \<open>intelhex\<close> package, which
  is not part of the repository.  The spec takes the image as "a sparse
  address-to-byte mapping, queryable by contiguous occupied ranges and by arbitrary
  address span", with "enumeration of disjoint [start,end) occupied address ranges" and
  "extraction of raw bytes for an arbitrary span (gaps filled with 0xFF)".  The image is
  the list of its cells, an address with its byte; for an address listed twice the
  first cell counts.
\<close>

type_synonym hexfile = "(int \<times> byte) list"

definition addresses :: "hexfile \<Rightarrow> int list" where
  "addresses h = sort (remdups (map fst h))"

text \<open>
  Ascending, distinct addresses cut into maximal runs of consecutive addresses; the run
  in progress is \<open>[s, e)\<close>.
\<close>

fun runs :: "int \<Rightarrow> int \<Rightarrow> int list \<Rightarrow> (int \<times> int) list" where
  "runs s e [] = [(s, e)]"
| "runs s e (a # as) = (if a = e then runs s (e + 1) as else (s, e) # runs a (a + 1) as)"

text \<open>\<open>hexfile.segments()\<close>.\<close>

definition segments :: "hexfile \<Rightarrow> (int \<times> int) list" where
  "segments h = (case addresses h of [] \<Rightarrow> [] | a # as \<Rightarrow> runs a (a + 1) as)"

text \<open>
  \<open>hexfile.tobinarray(start, stop)\<close>, both ends included: the cell's byte where the
  image has one, the padding byte \<open>0xFF\<close> elsewhere.  The range is empty here when
  \<open>stop < start\<close>; no statement below asks for such a range.
\<close>

definition tobinarray :: "hexfile \<Rightarrow> int \<Rightarrow> int \<Rightarrow> byte list" where
  "tobinarray h start stop =
     map (\<lambda>a. case map_of h a of None \<Rightarrow> 0xFF | Some b \<Rightarrow> b) [start..stop]"

subsection \<open>\<open>populate_sectors\<close>\<close>

text \<open>
  The inner loop over \<open>hexfile.segments()\<close>, which leaves at the first segment that
  passes one of the two tests.
\<close>

fun touched_by :: "(int \<times> int) list \<Rightarrow> int \<Rightarrow> int \<Rightarrow> bool" where
  "touched_by [] a sz = False"
| "touched_by ((start, stop) # segs) a sz =
     (if start < a \<and> stop > a then True
      else if start \<ge> a \<and> start < a + sz then True
      else touched_by segs a sz)"

text \<open>The generator yields a pair for every touched sector, and nothing for the others.\<close>

fun populate_sectors :: "sector list \<Rightarrow> hexfile \<Rightarrow> (sector \<times> byte list) list" where
  "populate_sectors [] h = []"
| "populate_sectors (s # ss) h =
     (if touched_by (segments h) (sec_addr s) (sec_len s)
      then (s, tobinarray h (sec_addr s) (sec_addr s + sec_len s - 1)) # populate_sectors ss h
      else populate_sectors ss h)"

section \<open>The DFU device\<close>

text \<open>
  Modelled from the spec: the package \<open>dfuse\<close> (\<open>DfuState\<close>, \<open>DfuDevice\<close>) belongs to
  the repository and is not among its files here.  The states are those of the spec's
  section 4.3, under the names \<open>dfu.py\<close> uses; a status is the spec's "pair
  (poll-timeout-hint, current state)", a Python tuple whose item 1 is the state, which
  is how \<open>dfu.py\<close> reads it (\<open>status[1]\<close>).
\<close>

datatype dfu_state =
    DFU_IDLE
  | DFU_DOWNLOAD_SYNC
  | DFU_DOWNLOAD_BUSY
  | DFU_DOWNLOAD_IDLE
  | DFU_MANIFEST_SYNC
  | DFU_MANIFEST
  | DFU_UPLOAD_IDLE
  | DFU_ERROR

type_synonym dfu_status = "int \<times> dfu_state"

text \<open>The value of \<open>bState\<close> the DFU standard gives each state; it is how a state prints.\<close>

fun state_code :: "dfu_state \<Rightarrow> nat" where
  "state_code DFU_IDLE = 2"
| "state_code DFU_DOWNLOAD_SYNC = 3"
| "state_code DFU_DOWNLOAD_BUSY = 4"
| "state_code DFU_DOWNLOAD_IDLE = 5"
| "state_code DFU_MANIFEST_SYNC = 6"
| "state_code DFU_MANIFEST = 7"
| "state_code DFU_UPLOAD_IDLE = 9"
| "state_code DFU_ERROR = 10"

text \<open>
  Modelled from the spec: the operations of a \<open>DfuDevice\<close>, each an opaque request to
  the device: it may change the device and, for some, returns what the device answers.
  \<open>dev_wait_while_state busy timeout\<close> is the spec's polling ("read status, and while
  state equals the given busy-state and the overall wait budget has not elapsed, sleep
  and re-read") and returns the last status read.  The statements below hold for every
  device, that is for every value of this record.
\<close>

record 'd dfu_device =
  dev_alternates :: "'d \<Rightarrow> (string \<times> int) list"
  dev_set_alternate :: "int \<Rightarrow> 'd \<Rightarrow> 'd"
  dev_get_state :: "'d \<Rightarrow> dfu_state \<times> 'd"
  dev_clear_status :: "'d \<Rightarrow> 'd"
  dev_wait_while_state :: "dfu_state \<Rightarrow> rat option \<Rightarrow> 'd \<Rightarrow> dfu_status \<times> 'd"
  dev_set_address :: "int \<Rightarrow> 'd \<Rightarrow> 'd"
  dev_erase :: "int \<Rightarrow> 'd \<Rightarrow> 'd"
  dev_write :: "nat \<Rightarrow> byte list \<Rightarrow> 'd \<Rightarrow> 'd"
  dev_read :: "nat \<Rightarrow> int \<Rightarrow> 'd \<Rightarrow> byte list \<times> 'd"
  dev_abort :: "'d \<Rightarrow> 'd"
  dev_leave :: "'d \<Rightarrow> 'd"

text \<open>
  The requests a run issues are recorded in order, each with the handle it was issued
  on and, where there is one, the device's answer.
\<close>

datatype event =
    SetAlternate int
  | GetState dfu_state
  | ClearStatus
  | WaitWhileState dfu_state "rat option" dfu_status
  | SetAddress int
  | Erase int
  | Write nat "byte list"
  | Read nat int "byte list"
  | Abort
  | Leave

type_synonym handle = nat

text \<open>
  A computation takes the devices (one state per handle) and gives its result or the
  exception it raises, the requests it issued and the devices as it leaves them.
\<close>

type_synonym ('d, 'a) io =
  "(handle \<Rightarrow> 'd) \<Rightarrow> (py_error + 'a) \<times> (handle \<times> event) list \<times> (handle \<Rightarrow> 'd)"

definition return_io :: "'a \<Rightarrow> ('d, 'a) io" where
  "return_io x w = (Inr x, [], w)"

definition raise_io :: "py_error \<Rightarrow> ('d, 'a) io" where
  "raise_io e w = (Inl e, [], w)"

definition bind_io :: "('d, 'a) io \<Rightarrow> ('a \<Rightarrow> ('d, 'b) io) \<Rightarrow> ('d, 'b) io" where
  "bind_io m f w =
     (case m w of
        (Inl e, t, w') \<Rightarrow> (Inl e, t, w')
      | (Inr x, t, w') \<Rightarrow> (case f x w' of (r, t', w'') \<Rightarrow> (r, t @ t', w'')))"

definition io_result :: "(py_error + 'a) \<times> (handle \<times> event) list \<times> (handle \<Rightarrow> 'd) \<Rightarrow> py_error + 'a" where
  "io_result r = fst r"

definition io_events :: "(py_error + 'a) \<times> (handle \<times> event) list \<times> (handle \<Rightarrow> 'd) \<Rightarrow> (handle \<times> event) list" where
  "io_events r = fst (snd r)"

definition io_world :: "(py_error + 'a) \<times> (handle \<times> event) list \<times> (handle \<Rightarrow> 'd) \<Rightarrow> handle \<Rightarrow> 'd" where
  "io_world r = snd (snd r)"

text \<open>A request without an answer, and one with an answer.\<close>

definition dev_cmd :: "handle \<Rightarrow> ('d \<Rightarrow> 'd) \<Rightarrow> event \<Rightarrow> ('d, unit) io" where
  "dev_cmd h f ev w = (Inr (), [(h, ev)], w(h := f (w h)))"

definition dev_call :: "handle \<Rightarrow> ('d \<Rightarrow> 'a \<times> 'd) \<Rightarrow> ('a \<Rightarrow> event) \<Rightarrow> ('d, 'a) io" where
  "dev_call h f ev w = (case f (w h) of (r, d') \<Rightarrow> (Inr r, [(h, ev r)], w(h := d')))"

text \<open>The methods \<open>dfu.py\<close> calls on a device handle.\<close>

definition m_set_alternate :: "'d dfu_device \<Rightarrow> handle \<Rightarrow> int \<Rightarrow> ('d, unit) io" where
  "m_set_alternate ops h alt = dev_cmd h (dev_set_alternate ops alt) (SetAlternate alt)"

definition m_get_state :: "'d dfu_device \<Rightarrow> handle \<Rightarrow> ('d, dfu_state) io" where
  "m_get_state ops h = dev_call h (dev_get_state ops) GetState"

definition m_clear_status :: "'d dfu_device \<Rightarrow> handle \<Rightarrow> ('d, unit) io" where
  "m_clear_status ops h = dev_cmd h (dev_clear_status ops) ClearStatus"

definition m_wait_while_state ::
  "'d dfu_device \<Rightarrow> handle \<Rightarrow> dfu_state \<Rightarrow> rat option \<Rightarrow> ('d, dfu_status) io" where
  "m_wait_while_state ops h busy timeout =
     dev_call h (dev_wait_while_state ops busy timeout) (WaitWhileState busy timeout)"

definition m_set_address :: "'d dfu_device \<Rightarrow> handle \<Rightarrow> int \<Rightarrow> ('d, unit) io" where
  "m_set_address ops h a = dev_cmd h (dev_set_address ops a) (SetAddress a)"

definition m_erase :: "'d dfu_device \<Rightarrow> handle \<Rightarrow> int \<Rightarrow> ('d, unit) io" where
  "m_erase ops h a = dev_cmd h (dev_erase ops a) (Erase a)"

definition m_write :: "'d dfu_device \<Rightarrow> handle \<Rightarrow> nat \<Rightarrow> byte list \<Rightarrow> ('d, unit) io" where
  "m_write ops h blocknum block = dev_cmd h (dev_write ops blocknum block) (Write blocknum block)"

definition m_read :: "'d dfu_device \<Rightarrow> handle \<Rightarrow> nat \<Rightarrow> int \<Rightarrow> ('d, byte list) io" where
  "m_read ops h blocknum n = dev_call h (dev_read ops blocknum n) (Read blocknum n)"

definition m_abort :: "'d dfu_device \<Rightarrow> handle \<Rightarrow> ('d, unit) io" where
  "m_abort ops h = dev_cmd h (dev_abort ops) Abort"

definition m_leave :: "'d dfu_device \<Rightarrow> handle \<Rightarrow> ('d, unit) io" where
  "m_leave ops h = dev_cmd h (dev_leave ops) Leave"

section \<open>String formatting\<close>

text \<open>The digit for a value below sixteen, upper case.\<close>

definition hex_digit :: "nat \<Rightarrow> char" where
  "hex_digit d = (if d < 16 then ''0123456789ABCDEF'' ! d else CHR ''?'')"

text \<open>The digits of a number in base \<open>b\<close>, upper case.\<close>

function nat_digits :: "nat \<Rightarrow> nat \<Rightarrow> string" where
  "nat_digits b n =
     (if b < 2 \<or> n < b then [hex_digit n]
      else nat_digits b (n div b) @ [hex_digit (n mod b)])"
  by pat_completeness auto
termination
  by (relation "measure (\<lambda>(b, n). n)") auto

declare nat_digits.simps [simp del]

text \<open>\<open>str(n)\<close> and \<open>'{:0wX}'.format(n)\<close> for an integer: the sign counts in the width.\<close>

definition py_str_int :: "int \<Rightarrow> string" where
  "py_str_int n =
     (if n < 0 then CHR ''-'' # nat_digits 10 (nat (- n)) else nat_digits 10 (nat n))"

definition format_0X :: "nat \<Rightarrow> int \<Rightarrow> string" where
  "format_0X w n =
     (if n < 0
      then CHR ''-'' # replicate (w - 1 - length (nat_digits 16 (nat (- n)))) CHR ''0''
             @ nat_digits 16 (nat (- n))
      else replicate (w - length (nat_digits 16 (nat n))) CHR ''0'' @ nat_digits 16 (nat n))"

text \<open>
  \<open>(fmt + '%r') % args\<close> where \<open>args\<close> is a tuple: the items of the tuple are the
  arguments of the format, which has one conversion.
\<close>

definition percent_r_tuple :: "string \<Rightarrow> string list \<Rightarrow> py_error + string" where
  "percent_r_tuple fmt items =
     (case items of
        [] \<Rightarrow> Inl (TypeError ''not enough arguments for format string'')
      | x # rest \<Rightarrow>
          (case rest of
             [] \<Rightarrow> Inr (fmt @ x)
           | y # zs \<Rightarrow> Inl (TypeError ''not all arguments converted during string formatting'')))"

text \<open>The items of a status, as \<open>repr\<close> prints them.\<close>

definition status_items :: "dfu_status \<Rightarrow> string list" where
  "status_items status = [py_str_int (fst status), py_str_int (int (state_code (snd status)))]"

text \<open>
  What \<open>raise RuntimeError("An error occured. Device Status: %r" % status)\<close> raises: the
  message is formatted first, and the exception of the formatting, if any, is the one
  that leaves.
\<close>

definition status_error :: "dfu_status \<Rightarrow> py_error" where
  "status_error status =
     (case percent_r_tuple ''An error occured. Device Status: '' (status_items status) of
        Inl e \<Rightarrow> e
      | Inr msg \<Rightarrow> RuntimeError msg)"

section \<open>DFU State Machine Driver\<close>

text \<open>
  The module's global names the functions read.  \<open>dfudev\<close> is bound on line 298, before
  any of them is called; reading it unbound raises \<open>NameError\<close>.
\<close>

record globals =
  g_dfudev :: "handle option"

definition global_dfudev :: "globals \<Rightarrow> ('d, handle) io" where
  "global_dfudev g =
     (case g_dfudev g of
        None \<Rightarrow> raise_io (NameError ''dfudev'')
      | Some h \<Rightarrow> return_io h)"

definition set_alternate_safe :: "'d dfu_device \<Rightarrow> handle \<Rightarrow> int \<Rightarrow> ('d, unit) io" where
  "set_alternate_safe ops dfudev alt =
     bind_io (m_set_alternate ops dfudev alt) (\<lambda>u.
     bind_io (m_get_state ops dfudev) (\<lambda>st.
       if st = DFU_ERROR
       then bind_io (m_clear_status ops dfudev) (\<lambda>u.
            bind_io (m_wait_while_state ops dfudev DFU_ERROR None) (\<lambda>status.
            return_io ()))
       else return_io ()))"

text \<open>
  \<open>set_address_safe(dfudef, addr)\<close>: the parameter is spelled \<open>dfudef\<close>, and the body
  names \<open>dfudev\<close>, which is the module's global.
\<close>

definition set_address_safe :: "'d dfu_device \<Rightarrow> globals \<Rightarrow> handle \<Rightarrow> int \<Rightarrow> ('d, unit) io" where
  "set_address_safe ops g dfudef a =
     bind_io (global_dfudev g) (\<lambda>dfudev.
     bind_io (m_set_address ops dfudev a) (\<lambda>u.
     bind_io (m_wait_while_state ops dfudev DFU_DOWNLOAD_BUSY None) (\<lambda>status.
       if snd status \<noteq> DFU_DOWNLOAD_IDLE then raise_io (status_error status)
       else bind_io (m_abort ops dfudev) (\<lambda>u.
            bind_io (m_wait_while_state ops dfudev DFU_DOWNLOAD_SYNC None) (\<lambda>status2.
              if snd status2 \<noteq> DFU_IDLE then raise_io (status_error status2)
              else return_io ())))))"

text \<open>
  \<open>erase(dfudev, sector)\<close>.  The timeout is \<open>sector['len']/32\<close>, a true division; it is
  kept as the exact quotient.
\<close>

definition erase :: "'d dfu_device \<Rightarrow> handle \<Rightarrow> sector \<Rightarrow> ('d, unit) io" where
  "erase ops dfudev s =
     bind_io (set_alternate_safe ops dfudev (sec_alt s)) (\<lambda>u.
     bind_io (m_erase ops dfudev (sec_addr s)) (\<lambda>u.
     bind_io (m_wait_while_state ops dfudev DFU_DOWNLOAD_BUSY
                (Some (of_int (sec_len s) / 32))) (\<lambda>status.
       if snd status \<noteq> DFU_DOWNLOAD_IDLE then raise_io (status_error status)
       else return_io ())))"

subsection \<open>Chunks\<close>

text \<open>\<open>fractions.gcd\<close>: Euclid's loop \<open>while b: a, b = b, a % b\<close>.\<close>

function fractions_gcd :: "int \<Rightarrow> int \<Rightarrow> int" where
  "fractions_gcd a b = (if b \<noteq> 0 then fractions_gcd b (a mod b) else a)"
  by pat_completeness auto
termination
  by (relation "measure (\<lambda>(a, b). nat \<bar>b\<bar>)") (auto simp: abs_mod_less)

declare fractions_gcd.simps [simp del]

text \<open>\<open>range(start, stop, step)\<close>.\<close>

definition py_range3 :: "int \<Rightarrow> int \<Rightarrow> int \<Rightarrow> py_error + int list" where
  "py_range3 start stop step =
     (if step = 0 then Inl ValueError
      else if step > 0
      then Inr (map (\<lambda>k. start + int k * step) [0..<nat ((stop - start + step - 1) div step)])
      else Inr (map (\<lambda>k. start + int k * step)
                  [0..<nat ((start - stop - step - 1) div (- step))]))"

text \<open>\<open>xs[i:j]\<close>: a negative index counts from the end, and both are clipped.\<close>

definition clip_index :: "nat \<Rightarrow> int \<Rightarrow> nat" where
  "clip_index n i = (if i < 0 then nat (int n + i) else min n (nat i))"

definition py_slice :: "'a list \<Rightarrow> int \<Rightarrow> int \<Rightarrow> 'a list" where
  "py_slice xs i j =
     take (clip_index (length xs) j - clip_index (length xs) i) (drop (clip_index (length xs) i) xs)"

text \<open>
  \<open>blocks = [data[i:i + transfer_size] for i in range(0, len(data), transfer_size)]\<close>
  with \<open>transfer_size = fractions.gcd(sector['len'], MAX_TRANSFER_SIZE)\<close>.
\<close>

definition flash_blocks :: "sector \<Rightarrow> byte list \<Rightarrow> py_error + byte list list" where
  "flash_blocks s data =
     (case py_range3 0 (int (length data)) (fractions_gcd (sec_len s) MAX_TRANSFER_SIZE) of
        Inl e \<Rightarrow> Inl e
      | Inr starts \<Rightarrow>
          Inr (map (\<lambda>i. py_slice data i (i + fractions_gcd (sec_len s) MAX_TRANSFER_SIZE))
                 starts))"

text \<open>The loop over \<open>enumerate(blocks)\<close>, from the block number it has reached.\<close>

fun write_blocks :: "'d dfu_device \<Rightarrow> handle \<Rightarrow> nat \<Rightarrow> byte list list \<Rightarrow> ('d, unit) io" where
  "write_blocks ops dfudev blocknum [] = return_io ()"
| "write_blocks ops dfudev blocknum (block # blocks) =
     bind_io (m_write ops dfudev blocknum block) (\<lambda>u.
     bind_io (m_wait_while_state ops dfudev DFU_DOWNLOAD_BUSY None) (\<lambda>status.
       if snd status \<noteq> DFU_DOWNLOAD_IDLE then raise_io (status_error status)
       else write_blocks ops dfudev (Suc blocknum) blocks))"

definition flash :: "'d dfu_device \<Rightarrow> globals \<Rightarrow> handle \<Rightarrow> sector \<Rightarrow> byte list \<Rightarrow> ('d, unit) io" where
  "flash ops g dfudev s data =
     bind_io (set_alternate_safe ops dfudev (sec_alt s)) (\<lambda>u.
     bind_io (set_address_safe ops g dfudev (sec_addr s)) (\<lambda>u.
       case flash_blocks s data of
         Inl e \<Rightarrow> raise_io e
       | Inr blocks \<Rightarrow> write_blocks ops dfudev 0 blocks))"

text \<open>
  \<open>int(sector['len'] / transfer_size)\<close>: the quotient cut towards zero.  Python rounds
  the quotient to a double before it cuts; the two agree whenever the divisor divides the
  dividend and both are below \<open>2 ^ 53\<close>.
\<close>

definition int_of_quotient :: "int \<Rightarrow> int \<Rightarrow> py_error + int" where
  "int_of_quotient a b =
     (if b = 0 then Inl ZeroDivisionError else Inr (sgn a * sgn b * (\<bar>a\<bar> div \<bar>b\<bar>)))"

text \<open>The number of blocks \<open>read\<close> asks for.\<close>

definition read_count :: "sector \<Rightarrow> py_error + int" where
  "read_count s = int_of_quotient (sec_len s) (fractions_gcd (sec_len s) MAX_TRANSFER_SIZE)"

text \<open>The loop over \<open>range(n)\<close>, with the bytes read so far.\<close>

fun read_blocks ::
  "'d dfu_device \<Rightarrow> handle \<Rightarrow> int \<Rightarrow> nat list \<Rightarrow> byte list \<Rightarrow> ('d, byte list) io" where
  "read_blocks ops dfudev transfer_size [] data = return_io data"
| "read_blocks ops dfudev transfer_size (blocknum # rest) data =
     bind_io (m_read ops dfudev blocknum transfer_size) (\<lambda>deviceBlock.
     read_blocks ops dfudev transfer_size rest (data @ deviceBlock))"

definition read :: "'d dfu_device \<Rightarrow> globals \<Rightarrow> handle \<Rightarrow> sector \<Rightarrow> ('d, byte list) io" where
  "read ops g dfudev s =
     bind_io (set_alternate_safe ops dfudev (sec_alt s)) (\<lambda>u.
     bind_io (set_address_safe ops g dfudev (sec_addr s)) (\<lambda>u.
       case read_count s of
         Inl e \<Rightarrow> raise_io e
       | Inr n \<Rightarrow>
           bind_io (read_blocks ops dfudev (fractions_gcd (sec_len s) MAX_TRANSFER_SIZE)
                      [0..<nat n] []) (\<lambda>data.
           bind_io (m_abort ops dfudev) (\<lambda>u.
           return_io data))))"

subsection \<open>The mismatch locator\<close>

text \<open>The loop \<open>for pos in range(len(array1))\<close>, over the positions still to visit.\<close>

fun mismatch_loop :: "'a list \<Rightarrow> 'a list \<Rightarrow> nat list \<Rightarrow> nat option" where
  "mismatch_loop array1 array2 [] = None"
| "mismatch_loop array1 array2 (pos # rest) =
     (if array1 ! pos \<noteq> array2 ! pos then Some pos else mismatch_loop array1 array2 rest)"

definition get_first_mismatch_index :: "'a list \<Rightarrow> 'a list \<Rightarrow> py_error + nat option" where
  "get_first_mismatch_index array1 array2 =
     (if length array1 \<noteq> length array2 then Inl (PyException ''arrays must be same size'')
      else Inr (mismatch_loop array1 array2 [0..<length array1]))"

subsection \<open>Leaving DFU mode\<close>

definition jump_to_application :: "'d dfu_device \<Rightarrow> globals \<Rightarrow> handle \<Rightarrow> int \<Rightarrow> ('d, unit) io" where
  "jump_to_application ops g dfudev address =
     bind_io (set_address_safe ops g dfudev address) (\<lambda>u.
     bind_io (m_leave ops dfudev) (\<lambda>u.
     bind_io (m_wait_while_state ops dfudev DFU_MANIFEST_SYNC None) (\<lambda>status.
       if snd status \<noteq> DFU_MANIFEST
       then raise_io (RuntimeError (''An error occured. Device Status: ''
                        @ py_str_int (int (state_code (snd status)))))
       else return_io ())))"

section \<open>Program Sequencer\<close>

text \<open>
  Lines 318 to 360 of the module.  The progress lines it prints are left out; the
  \<open>try ... finally\<close> blocks around the passes only print.
\<close>

fun erase_pass :: "'d dfu_device \<Rightarrow> handle \<Rightarrow> (sector \<times> byte list) list \<Rightarrow> ('d, unit) io" where
  "erase_pass ops dfudev [] = return_io ()"
| "erase_pass ops dfudev ((s, data) # rest) =
     bind_io (erase ops dfudev s) (\<lambda>u. erase_pass ops dfudev rest)"

fun flash_pass ::
  "'d dfu_device \<Rightarrow> globals \<Rightarrow> handle \<Rightarrow> (sector \<times> byte list) list \<Rightarrow> ('d, unit) io" where
  "flash_pass ops g dfudev [] = return_io ()"
| "flash_pass ops g dfudev ((s, data) # rest) =
     bind_io (flash ops g dfudev s data) (\<lambda>u. flash_pass ops g dfudev rest)"

text \<open>
  The message of the verification failure: the window of sixteen bytes starts at the
  mismatch position less its remainder by sixteen.
\<close>

definition hex_snippet :: "byte list \<Rightarrow> nat \<Rightarrow> string" where
  "hex_snippet xs start =
     join_with CHR '' ''
       (map (\<lambda>x. format_0X 2 (uint x)) (py_slice xs (int start) (int start + 16)))"

definition verification_error :: "sector \<Rightarrow> nat \<Rightarrow> byte list \<Rightarrow> byte list \<Rightarrow> py_error" where
  "verification_error s mismatch_pos observed_data expected_data =
     RuntimeError
       (''Verification failed around address 0x''
          @ format_0X 8 (sec_addr s + int (mismatch_pos - mismatch_pos mod 16))
          @ '':'' @ [CHR 0x0A] @ ''  expected: ''
          @ hex_snippet expected_data (mismatch_pos - mismatch_pos mod 16)
          @ [CHR 0x0A] @ ''  observed: ''
          @ hex_snippet observed_data (mismatch_pos - mismatch_pos mod 16))"

fun verify_pass ::
  "'d dfu_device \<Rightarrow> globals \<Rightarrow> handle \<Rightarrow> (sector \<times> byte list) list \<Rightarrow> ('d, unit) io" where
  "verify_pass ops g dfudev [] = return_io ()"
| "verify_pass ops g dfudev ((s, expected_data) # rest) =
     bind_io (read ops g dfudev s) (\<lambda>observed_data.
       case get_first_mismatch_index observed_data expected_data of
         Inl e \<Rightarrow> raise_io e
       | Inr None \<Rightarrow> verify_pass ops g dfudev rest
       | Inr (Some mismatch_pos) \<Rightarrow>
           raise_io (verification_error s mismatch_pos observed_data expected_data))"

text \<open>
  The run from line 298 on, for the device found: \<open>dfudev\<close> is bound, the sector map is
  built and populated, the three passes run, and the application is started.
\<close>

definition run_passes ::
  "'d dfu_device \<Rightarrow> globals \<Rightarrow> handle \<Rightarrow> (sector \<times> byte list) list \<Rightarrow> ('d, unit) io" where
  "run_passes ops g dfudev touched_sectors =
     bind_io (erase_pass ops dfudev touched_sectors) (\<lambda>u.
     bind_io (flash_pass ops g dfudev touched_sectors) (\<lambda>u.
     bind_io (verify_pass ops g dfudev touched_sectors) (\<lambda>u.
     jump_to_application ops g dfudev 0x08000000)))"

definition program_device :: "'d dfu_device \<Rightarrow> handle \<Rightarrow> hexfile \<Rightarrow> ('d, unit) io" where
  "program_device ops dfudev hexfile w =
     (case py_list (get_device_sectors (dev_alternates ops (w dfudev))) of
        Inl e \<Rightarrow> raise_io e w
      | Inr sectors \<Rightarrow>
          run_passes ops \<lparr>g_dfudev = Some dfudev\<rparr> dfudev (populate_sectors sectors hexfile) w)"

section \<open>Identity filter: UUID to serial number\<close>

text \<open>
  \<open>uuid_to_serial\<close> is called with whatever \<open>str_to_uuid\<close> returns, so its arguments
  are Python values: integers or tuples.
\<close>

datatype pyval = PInt int | PTuple "pyval list"

text \<open>\<open>a + b\<close>: integers add, tuples are concatenated, anything else is a \<open>TypeError\<close>.\<close>

fun py_add :: "pyval \<Rightarrow> pyval \<Rightarrow> py_error + pyval" where
  "py_add (PInt a) (PInt b) = Inr (PInt (a + b))"
| "py_add (PTuple xs) (PTuple ys) = Inr (PTuple (xs @ ys))"
| "py_add a b = Inl (TypeError ''unsupported operand type(s) for +'')"

text \<open>
  \<open>struct.pack('>I', v)\<close>: four bytes, most significant first, for an integer from \<open>0\<close>
  to \<open>2 ^ 32 - 1\<close>; \<open>struct.error\<close> for any other integer and for a value that is not an
  integer.
\<close>

fun struct_pack_I :: "pyval \<Rightarrow> py_error + byte list" where
  "struct_pack_I (PInt n) =
     (if 0 \<le> n \<and> n < 2 ^ 32
      then Inr [of_int (n div 2 ^ 24), of_int (n div 2 ^ 16), of_int (n div 2 ^ 8), of_int n]
      else Inl StructError)"
| "struct_pack_I (PTuple xs) = Inl StructError"

text \<open>
  \<open>struct.unpack('>I', b)\<close>: the buffer must hold four bytes; the result is a tuple of
  one integer.
\<close>

definition struct_unpack_I :: "byte list \<Rightarrow> py_error + pyval" where
  "struct_unpack_I b =
     (case b of
        [b0, b1, b2, b3] \<Rightarrow>
          Inr (PTuple [PInt (uint b0 * 2 ^ 24 + uint b1 * 2 ^ 16 + uint b2 * 2 ^ 8 + uint b3)])
      | _ \<Rightarrow> Inl StructError)"

text \<open>
  \<open>bytearray.fromhex(s)\<close>: pairs of hexadecimal digits, with ASCII whitespace allowed
  between the pairs.
\<close>

definition ascii_space :: "char \<Rightarrow> bool" where
  "ascii_space c = (let n = (of_char c :: nat) in (9 \<le> n \<and> n \<le> 13) \<or> n = 32)"

definition hex_value :: "char \<Rightarrow> nat option" where
  "hex_value c = (case digit_value c of None \<Rightarrow> None | Some d \<Rightarrow> if d < 16 then Some d else None)"

fun fromhex :: "string \<Rightarrow> py_error + byte list" where
  "fromhex [] = Inr []"
| "fromhex [c] = (if ascii_space c then Inr [] else Inl ValueError)"
| "fromhex (c # d # rest) =
     (if ascii_space c then fromhex (d # rest)
      else (case hex_value c of
              None \<Rightarrow> Inl ValueError
            | Some x \<Rightarrow>
                (case hex_value d of
                   None \<Rightarrow> Inl ValueError
                 | Some y \<Rightarrow>
                     (case fromhex rest of
                        Inl e \<Rightarrow> Inl e
                      | Inr bs \<Rightarrow> Inr (of_nat (16 * x + y) # bs)))))"

text \<open>\<open>str_to_uuid\<close>: the three values it returns, each what \<open>struct.unpack\<close> returned.\<close>

definition str_to_uuid :: "string \<Rightarrow> py_error + pyval \<times> pyval \<times> pyval" where
  "str_to_uuid uuid_str =
     (case fromhex (filter (\<lambda>c. c \<noteq> CHR ''-'') uuid_str) of
        Inl e \<Rightarrow> Inl e
      | Inr uuid \<Rightarrow>
          (case struct_unpack_I (py_slice uuid 0 4) of
             Inl e \<Rightarrow> Inl e
           | Inr u0 \<Rightarrow>
               (case struct_unpack_I (py_slice uuid 4 8) of
                  Inl e \<Rightarrow> Inl e
                | Inr u1 \<Rightarrow>
                    (case struct_unpack_I (py_slice uuid 8 12) of
                       Inl e \<Rightarrow> Inl e
                     | Inr u2 \<Rightarrow> Inr (u0, u1, u2)))))"

text \<open>\<open>b.hex().upper()\<close>.\<close>

definition hex_upper :: "byte list \<Rightarrow> string" where
  "hex_upper bs = concat (map (\<lambda>b. format_0X 2 (uint b)) bs)"

definition uuid_to_serial :: "pyval \<Rightarrow> pyval \<Rightarrow> pyval \<Rightarrow> py_error + string" where
  "uuid_to_serial uuid0 uuid1 uuid2 =
     (case py_add uuid0 uuid2 of
        Inl e \<Rightarrow> Inl e
      | Inr s \<Rightarrow>
          (case struct_pack_I s of
             Inl e \<Rightarrow> Inl e
           | Inr p0 \<Rightarrow>
               (case struct_pack_I uuid1 of
                  Inl e \<Rightarrow> Inl e
                | Inr p1 \<Rightarrow> Inr (hex_upper (p0 @ py_slice p1 0 2)))))"

text \<open>Line 271: \<open>serial_number = uuid_to_serial(*str_to_uuid(args.uuid))\<close>.\<close>

definition serial_of_uuid_argument :: "string \<Rightarrow> py_error + string" where
  "serial_of_uuid_argument uuid_str =
     (case str_to_uuid uuid_str of
        Inl e \<Rightarrow> Inl e
      | Inr (u0, u1, u2) \<Rightarrow> uuid_to_serial u0 u1 u2)"

section \<open>Concrete inputs\<close>

text \<open>
  The sector map of the descriptor \<open>@Flash  /0x08000000/04*016Kg,01*064Kg,07*128Kg\<close>, an
  image whose only segment is \<open>[0x08010010, 0x08010020)\<close>, a sector of sixteen bytes and
  an image of the four bytes \<open>DE AD BE EF\<close> at its start.
\<close>

definition flash_sectors :: "sector list" where
  "flash_sectors =
     fst (get_device_sectors [(''@Flash  /0x08000000/04*016Kg,01*064Kg,07*128Kg'', 0)])"

definition small_segment_image :: hexfile where
  "small_segment_image = map (\<lambda>a. (a, 0)) [0x08010010..0x0801001F]"




subsection \<open>A device that answers from a script\<close>

text \<open>
  The device holds the descriptors of its alternates, the statuses it will answer to
  \<open>wait_while_state\<close>, one per call, and the blocks it will answer to \<open>read\<close>.  When a
  list runs out it answers the error state, or no bytes.
\<close>

record script =
  descriptors :: "(string \<times> int) list"
  statuses :: "dfu_status list"
  blocks :: "byte list list"

definition scripted_device :: "script dfu_device" where
  "scripted_device =
     \<lparr>dev_alternates = descriptors,
      dev_set_alternate = (\<lambda>alt d. d),
      dev_get_state = (\<lambda>d. (DFU_IDLE, d)),
      dev_clear_status = (\<lambda>d. d),
      dev_wait_while_state =
        (\<lambda>busy timeout d.
           case statuses d of
             [] \<Rightarrow> ((0, DFU_ERROR), d)
           | st # rest \<Rightarrow> (st, d\<lparr>statuses := rest\<rparr>)),
      dev_set_address = (\<lambda>a d. d),
      dev_erase = (\<lambda>a d. d),
      dev_write = (\<lambda>blocknum block d. d),
      dev_read =
        (\<lambda>blocknum n d.
           case blocks d of
             [] \<Rightarrow> ([], d)
           | b # rest \<Rightarrow> (b, d\<lparr>blocks := rest\<rparr>)),
      dev_abort = (\<lambda>d. d),
      dev_leave = (\<lambda>d. d)\<rparr>"

text \<open>A script for one successful \<open>set_address_safe\<close>, and one that answers the error state.\<close>

definition idle_script :: script where
  "idle_script = \<lparr>descriptors = [], statuses = [(0, DFU_DOWNLOAD_IDLE), (0, DFU_IDLE)], blocks = []\<rparr>"

definition error_script :: script where
  "error_script = \<lparr>descriptors = [], statuses = [(0, DFU_ERROR)], blocks = []\<rparr>"

text \<open>The events of the four kinds of request the passes are made of.\<close>

fun phase_of :: "event \<Rightarrow> nat option" where
  "phase_of (Erase a) = Some 0"
| "phase_of (Write blocknum block) = Some 1"
| "phase_of (Read blocknum n block) = Some 2"
| "phase_of Leave = Some 3"
| "phase_of ev = None"

subsection \<open>What a run asked of the device\<close>



text \<open>
  The erase, write and read requests among the events of a run, in order: the address
  erased, the block number and bytes written, the block number and size asked for.
\<close>

fun erase_of :: "event \<Rightarrow> int option" where
  "erase_of (Erase a) = Some a"
| "erase_of ev = None"

fun write_of :: "event \<Rightarrow> (nat \<times> byte list) option" where
  "write_of (Write blocknum block) = Some (blocknum, block)"
| "write_of ev = None"

fun read_of :: "event \<Rightarrow> (nat \<times> int) option" where
  "read_of (Read blocknum n block) = Some (blocknum, n)"
| "read_of ev = None"

definition erase_requests :: "(handle \<times> event) list \<Rightarrow> int list" where
  "erase_requests evs = List.map_filter (\<lambda>e. erase_of (snd e)) evs"

definition write_requests :: "(handle \<times> event) list \<Rightarrow> (nat \<times> byte list) list" where
  "write_requests evs = List.map_filter (\<lambda>e. write_of (snd e)) evs"

definition read_requests :: "(handle \<times> event) list \<Rightarrow> (nat \<times> int) list" where
  "read_requests evs = List.map_filter (\<lambda>e. read_of (snd e)) evs"

text \<open>The pass each erase, write, read and leave request belongs to, in order.\<close>

definition phases :: "(handle \<times> event) list \<Rightarrow> nat list" where
  "phases evs = List.map_filter (\<lambda>e. phase_of (snd e)) evs"

text \<open>A payload of \<open>n\<close> bytes \<open>0xFF\<close>.\<close>

definition blank :: "nat \<Rightarrow> byte list" where
  "blank n = replicate n 0xFF"

text \<open>The 64 KiB sector of the example map.\<close>

definition sector_64k :: sector where
  "sector_64k = \<lparr>sec_name = ''Flash'', sec_alt = 0, sec_baseaddr = 0x08000000,
                   sec_addr = 0x08010000, sec_len = 65536, sec_mode = CHR ''g''\<rparr>"


text \<open>
  A sector of 64 bytes, and the script of a device that reads it back as 64 bytes
  \<open>0xFF\<close>.
\<close>

definition sector_64 :: sector where
  "sector_64 = \<lparr>sec_name = ''Flash'', sec_alt = 0, sec_baseaddr = 0x08000000,
                  sec_addr = 0x08000000, sec_len = 64, sec_mode = CHR ''g''\<rparr>"

definition read_script :: script where
  "read_script = \<lparr>descriptors = [], statuses = [(0, DFU_DOWNLOAD_IDLE), (0, DFU_IDLE)],
                    blocks = [blank 64]\<rparr>"





section \<open>Properties of the Sector Map Builder\<close>

lemma split_on_nonempty: "split_on sep s \<noteq> []"
  by (induction s) (auto split: list.splits)



























text \<open>Evaluation of the parsers on concrete strings.\<close>

lemmas int_eval = py_int_def py_int0_def py_strip_def strip_while_def py_isspace_def int_isspace_def
  split_sign_def
  parse_base0_def parse_prefixed_def parse_literal_def digit_value_def signed_def

lemmas sector_eval = alternate_sectors_def parse_term_def unpack_repeat_size_def SIZE_MULTIPLIERS_def
  py_upper_def mk_sector_def py_strip_char_def emit_repeat.simps


section \<open>Malformed descriptors\<close>
















lemma malformed_examples_errors:
  "get_device_sectors [(''@Flash  /0x08000000'', 0)] = ([], Some ValueError)"
  "snd (get_device_sectors [(''@Flash  /0x08000000/04*016Kg,01*six4Kg'', 0)]) = Some ValueError"
  "snd (get_device_sectors [(''@Flash  /0x08000000/04*016Kg,01*064Xg'', 0)]) = Some (KeyError CHR ''X'')"
  by (simp_all add: int_eval sector_eval)

section \<open>Properties of the Target Selector\<close>

lemma touched_by_iff:
  "touched_by segs a sz \<longleftrightarrow>
     (\<exists>(start, stop)\<in>set segs. (start < a \<and> stop > a) \<or> (start \<ge> a \<and> start < a + sz))"
  by (induction segs a sz rule: touched_by.induct) auto

lemma map_fst_populate_sectors:
  "map fst (populate_sectors sectors h) =
     filter (\<lambda>s. touched_by (segments h) (sec_addr s) (sec_len s)) sectors"
  by (induction sectors) auto

lemma segments_empty [simp]: "segments [] = []"
  by (simp add: segments_def addresses_def)

text \<open>
  Claim C2.  The sectors \<open>populate_sectors\<close> yields are, in order, exactly the sectors of
  the map for which some segment \<open>[start, stop)\<close> of the image has
  \<open>start < addr \<and> stop > addr\<close> or \<open>start \<ge> addr \<and> start < addr + len\<close>; nothing is
  yielded for the other sectors, and an empty image yields nothing.  The loop over the
  segments decides this test for any list of segments.
\<close>

theorem populate_sectors_selects:
  "map fst (populate_sectors sectors h) =
     filter (\<lambda>s. \<exists>(start, stop)\<in>set (segments h).
                   (start < sec_addr s \<and> stop > sec_addr s) \<or>
                   (start \<ge> sec_addr s \<and> start < sec_addr s + sec_len s)) sectors \<and>
   populate_sectors sectors [] = [] \<and>
   (touched_by segs a sz \<longleftrightarrow>
      (\<exists>(start, stop)\<in>set segs. (start < a \<and> stop > a) \<or> (start \<ge> a \<and> start < a + sz)))"
proof (intro conjI)
  show "map fst (populate_sectors sectors h) =
     filter (\<lambda>s. \<exists>(start, stop)\<in>set (segments h).
                   (start < sec_addr s \<and> stop > sec_addr s) \<or>
                   (start \<ge> sec_addr s \<and> start < sec_addr s + sec_len s)) sectors"
    unfolding map_fst_populate_sectors touched_by_iff ..
  show "populate_sectors sectors [] = []"
    by (induction sectors) simp_all
  show "touched_by segs a sz \<longleftrightarrow>
      (\<exists>(start, stop)\<in>set segs. (start < a \<and> stop > a) \<or> (start \<ge> a \<and> start < a + sz))"
    by (rule touched_by_iff)
qed







lemma flash_sectors_eq:
  "flash_sectors =
     map (\<lambda>(a, l). \<lparr>sec_name = ''Flash'', sec_alt = 0, sec_baseaddr = 0x08000000,
                       sec_addr = a, sec_len = l, sec_mode = CHR ''g''\<rparr>)
        [(0x08000000, 16384), (0x08004000, 16384), (0x08008000, 16384), (0x0800C000, 16384),
         (0x08010000, 65536),
         (0x08020000, 131072), (0x08040000, 131072), (0x08060000, 131072), (0x08080000, 131072),
         (0x080A0000, 131072), (0x080C0000, 131072), (0x080E0000, 131072)]"
  unfolding flash_sectors_def by (simp add: int_eval sector_eval)

lemma small_segment_image_segments:
  "segments small_segment_image = [(0x08010010, 0x08010020)]"
  by (simp add: small_segment_image_def segments_def addresses_def)

text \<open>
  The segment \<open>[0x08010010, 0x08010020)\<close> against the twelve sectors of the example
  selects the 64 KiB sector at \<open>0x08010000\<close> alone.
\<close>

theorem populate_sectors_small_segment:
  "segments small_segment_image = [(0x08010010, 0x08010020)] \<and>
   map fst (populate_sectors flash_sectors small_segment_image) =
     [\<lparr>sec_name = ''Flash'', sec_alt = 0, sec_baseaddr = 0x08000000,
       sec_addr = 0x08010000, sec_len = 65536, sec_mode = CHR ''g''\<rparr>] \<and>
   populate_sectors flash_sectors [] = []"
  using populate_sectors_selects [of flash_sectors small_segment_image]
    populate_sectors_selects [of flash_sectors "[]"]
  by (simp add: small_segment_image_segments flash_sectors_eq)



section \<open>The UUID to serial mapping\<close>

lemma struct_unpack_I_tuple: "struct_unpack_I b = Inr v \<Longrightarrow> \<exists>n. v = PTuple [PInt n]"
  by (auto simp: struct_unpack_I_def split: list.splits)

lemma uuid_to_serial_of_tuples:
  "uuid_to_serial (PTuple xs) u1 (PTuple ys) = Inl StructError"
  by (simp add: uuid_to_serial_def)

lemma serial_of_uuid_argument_raises: "\<exists>e. serial_of_uuid_argument u = Inl e"
proof (cases "str_to_uuid u")
  case (Inl e)
  then show ?thesis by (simp add: serial_of_uuid_argument_def)
next
  case (Inr t)
  obtain u0 u1 u2 where t: "t = (u0, u1, u2)" by (cases t)
  from Inr t obtain a c where "u0 = PTuple [PInt a]" "u2 = PTuple [PInt c]"
    by (auto simp: str_to_uuid_def split: sum.splits dest!: struct_unpack_I_tuple)
  with Inr t show ?thesis
    by (simp add: serial_of_uuid_argument_def uuid_to_serial_of_tuples)
qed

lemmas uuid_eval = serial_of_uuid_argument_def str_to_uuid_def struct_unpack_I_def py_slice_def
  clip_index_def ascii_space_def hex_value_def digit_value_def uuid_to_serial_def

text \<open>
  Claim C5.  The composition the program runs does not return a serial number:
  \<open>str_to_uuid\<close> returns the three tuples \<open>struct.unpack\<close> gave it, \<open>uuid0 + uuid2\<close>
  concatenates two of them, and \<open>struct.pack\<close> refuses the tuple.  On integers,
  \<open>uuid_to_serial\<close> raises as well when \<open>uuid0 + uuid2\<close> passes \<open>2 ^ 32 - 1\<close>.
\<close>

theorem uuid_argument_raises_struct_error:
  "serial_of_uuid_argument ''00000001-00000002-00000003'' = Inl StructError \<and>
   str_to_uuid ''00000001-00000002-00000003'' =
     Inr (PTuple [PInt 1], PTuple [PInt 2], PTuple [PInt 3]) \<and>
   uuid_to_serial (PInt 0xFFFFFFFF) (PInt 2) (PInt 3) = Inl StructError"
  by (simp add: uuid_eval)

text \<open>On three integers whose sum fits, \<open>uuid_to_serial\<close> gives the twelve digits.\<close>

lemma uuid_to_serial_of_integers:
  "uuid_to_serial (PInt 1) (PInt 0x0a0b0c0d) (PInt 3) = Inr ''000000040A0B''"
  by (simp add: uuid_eval hex_upper_def format_0X_def nat_digits.simps hex_digit_def)

section \<open>Properties of the driver\<close>

lemma io_of_triple [simp]:
  "io_result (r, t, w) = r" "io_events (r, t, w) = t" "io_world (r, t, w) = w"
  by (simp_all add: io_result_def io_events_def io_world_def)

lemma io_return [simp]:
  "io_result (return_io x w) = Inr x" "io_events (return_io x w) = []" "io_world (return_io x w) = w"
  by (simp_all add: return_io_def io_result_def io_events_def io_world_def)

lemma io_raise [simp]:
  "io_result (raise_io e w) = Inl e" "io_events (raise_io e w) = []" "io_world (raise_io e w) = w"
  by (simp_all add: raise_io_def io_result_def io_events_def io_world_def)

lemma io_cmd [simp]:
  "io_result (dev_cmd h f ev w) = Inr ()" "io_events (dev_cmd h f ev w) = [(h, ev)]"
  "io_world (dev_cmd h f ev w) = w(h := f (w h))"
  by (simp_all add: dev_cmd_def io_result_def io_events_def io_world_def)

lemma io_call [simp]:
  "io_result (dev_call h f ev w) = Inr (fst (f (w h)))"
  "io_events (dev_call h f ev w) = [(h, ev (fst (f (w h))))]"
  "io_world (dev_call h f ev w) = w(h := snd (f (w h)))"
  by (simp_all add: dev_call_def io_result_def io_events_def io_world_def split: prod.splits)

lemma io_bind_result:
  "io_result (bind_io m f w) =
     (case io_result (m w) of Inl e \<Rightarrow> Inl e | Inr x \<Rightarrow> io_result (f x (io_world (m w))))"
  by (simp add: bind_io_def io_result_def io_world_def split: prod.splits sum.splits)

lemma io_bind_events:
  "io_events (bind_io m f w) =
     io_events (m w) @
     (case io_result (m w) of Inl e \<Rightarrow> [] | Inr x \<Rightarrow> io_events (f x (io_world (m w))))"
  by (simp add: bind_io_def io_result_def io_events_def io_world_def split: prod.splits sum.splits)

lemma io_bind_world:
  "io_world (bind_io m f w) =
     (case io_result (m w) of Inl e \<Rightarrow> io_world (m w) | Inr x \<Rightarrow> io_world (f x (io_world (m w))))"
  by (simp add: bind_io_def io_result_def io_world_def split: prod.splits sum.splits)

lemma io_eqI:
  "io_result r = io_result r' \<Longrightarrow> io_events r = io_events r' \<Longrightarrow> io_world r = io_world r'
     \<Longrightarrow> r = r'"
  by (cases r, cases r') (simp add: io_result_def io_events_def io_world_def)

lemma io_triple: "r = (io_result r, io_events r, io_world r)"
  by (simp add: io_result_def io_events_def io_world_def)

lemmas io_bind = io_bind_result io_bind_events io_bind_world

lemmas method_defs = m_set_alternate_def m_get_state_def m_clear_status_def m_wait_while_state_def
  m_set_address_def m_erase_def m_write_def m_read_def m_abort_def m_leave_def

lemma status_error_is_type_error:
  "status_error status = TypeError ''not all arguments converted during string formatting''"
  by (simp add: status_error_def percent_r_tuple_def status_items_def)

text \<open>\<open>set_address_safe\<close> step by step, for the global \<open>dfudev\<close> bound to \<open>d\<close>.\<close>

lemma set_address_safe_unbound:
  "g_dfudev g = None \<Longrightarrow> set_address_safe ops g dfudef a w = (Inl (NameError ''dfudev''), [], w)"
  by (simp add: set_address_safe_def global_dfudev_def bind_io_def raise_io_def)

lemma set_address_safe_run:
  assumes "g_dfudev g = Some d"
  shows "set_address_safe ops g dfudef a w =
    (let r1 = dev_wait_while_state ops DFU_DOWNLOAD_BUSY None (dev_set_address ops a (w d));
         r2 = dev_wait_while_state ops DFU_DOWNLOAD_SYNC None (dev_abort ops (snd r1))
     in if snd (fst r1) \<noteq> DFU_DOWNLOAD_IDLE
        then (Inl (status_error (fst r1)),
              [(d, SetAddress a), (d, WaitWhileState DFU_DOWNLOAD_BUSY None (fst r1))],
              w(d := snd r1))
        else (if snd (fst r2) \<noteq> DFU_IDLE then Inl (status_error (fst r2)) else Inr (),
              [(d, SetAddress a), (d, WaitWhileState DFU_DOWNLOAD_BUSY None (fst r1)),
               (d, Abort), (d, WaitWhileState DFU_DOWNLOAD_SYNC None (fst r2))],
              w(d := snd r2)))"
  by (rule io_eqI)
     (simp_all add: set_address_safe_def global_dfudev_def assms io_bind method_defs Let_def)

lemma set_address_safe_returns_iff:
  assumes "g_dfudev g = Some d"
  shows "io_result (set_address_safe ops g dfudef a w) = Inr () \<longleftrightarrow>
     snd (fst (dev_wait_while_state ops DFU_DOWNLOAD_BUSY None (dev_set_address ops a (w d))))
       = DFU_DOWNLOAD_IDLE \<and>
     snd (fst (dev_wait_while_state ops DFU_DOWNLOAD_SYNC None
                 (dev_abort ops (snd (dev_wait_while_state ops DFU_DOWNLOAD_BUSY None
                                        (dev_set_address ops a (w d)))))))
       = DFU_IDLE"
  by (simp add: set_address_safe_run [OF assms] Let_def)

text \<open>
  Claim C7.  The requests are the claimed ones, in the claimed order, and the call
  returns normally exactly when both states are observed (the two lemmas above).  When a
  state is not the required one, the exception that leaves is the \<open>TypeError\<close> of the
  message's formatting, which carries no status: here on a device that answers the error
  state to the first wait.
\<close>

theorem set_address_safe_error_is_type_error:
  "io_result (set_address_safe scripted_device \<lparr>g_dfudev = Some 0\<rparr> 0 0x08000000 (\<lambda>h. error_script))
     = Inl (TypeError ''not all arguments converted during string formatting'') \<and>
   io_events (set_address_safe scripted_device \<lparr>g_dfudev = Some 0\<rparr> 0 0x08000000 (\<lambda>h. error_script))
     = [(0, SetAddress 0x08000000), (0, WaitWhileState DFU_DOWNLOAD_BUSY None (0, DFU_ERROR))]"
  by (simp add: set_address_safe_run Let_def scripted_device_def error_script_def
      status_error_is_type_error)

text \<open>
  Claim C10.  \<open>set_address_safe\<close> gives the same result for every handle passed to it; with
  the global \<open>dfudev\<close> bound to \<open>d\<close> that is the result of passing \<open>d\<close>, every request is
  issued on \<open>d\<close>, and the device of every other handle is left as it was.
\<close>

theorem set_address_safe_ignores_handle:
  "set_address_safe ops g h a w = set_address_safe ops g h' a w \<and>
   (\<forall>d. g_dfudev g = Some d \<longrightarrow>
      set_address_safe ops g h a w = set_address_safe ops g d a w \<and>
      (\<forall>e\<in>set (io_events (set_address_safe ops g h a w)). fst e = d) \<and>
      (\<forall>k. k \<noteq> d \<longrightarrow> io_world (set_address_safe ops g h a w) k = w k))"
proof -
  have same: "set_address_safe ops g x a w = set_address_safe ops g y a w" for x y
    by (simp add: set_address_safe_def)
  have on_global: "(\<forall>e\<in>set (io_events (set_address_safe ops g h a w)). fst e = d) \<and>
      (\<forall>k. k \<noteq> d \<longrightarrow> io_world (set_address_safe ops g h a w) k = w k)"
    if "g_dfudev g = Some d" for d
    by (simp add: set_address_safe_run [OF that] Let_def)
  from same on_global show ?thesis by blast
qed

theorem set_address_safe_other_handle:
  "g_dfudev \<lparr>g_dfudev = Some 0\<rparr> = Some 0 \<and>
   set_address_safe scripted_device \<lparr>g_dfudev = Some 0\<rparr> 7 0x08000000 (\<lambda>h. idle_script)
     = set_address_safe scripted_device \<lparr>g_dfudev = Some 0\<rparr> 0 0x08000000 (\<lambda>h. idle_script) \<and>
   io_events (set_address_safe scripted_device \<lparr>g_dfudev = Some 0\<rparr> 7 0x08000000 (\<lambda>h. idle_script))
     = [(0, SetAddress 0x08000000), (0, WaitWhileState DFU_DOWNLOAD_BUSY None (0, DFU_DOWNLOAD_IDLE)),
        (0, Abort), (0, WaitWhileState DFU_DOWNLOAD_SYNC None (0, DFU_IDLE))] \<and>
   io_world (set_address_safe scripted_device \<lparr>g_dfudev = Some 0\<rparr> 7 0x08000000 (\<lambda>h. idle_script)) 7
     = idle_script"
proof -
  let ?g = "\<lparr>g_dfudev = Some 0\<rparr>"
  let ?r = "set_address_safe scripted_device ?g 7 0x08000000 (\<lambda>h. idle_script)"
  have g: "g_dfudev ?g = Some 0" by simp
  from set_address_safe_ignores_handle [of scripted_device ?g 7 "0x08000000" "\<lambda>h. idle_script" 0] g
  have 1: "?r = set_address_safe scripted_device ?g 0 0x08000000 (\<lambda>h. idle_script)"
    and 2: "io_world ?r 7 = idle_script"
    by auto
  have 3: "io_events ?r = [(0, SetAddress 0x08000000),
        (0, WaitWhileState DFU_DOWNLOAD_BUSY None (0, DFU_DOWNLOAD_IDLE)),
        (0, Abort), (0, WaitWhileState DFU_DOWNLOAD_SYNC None (0, DFU_IDLE))]"
    by (simp add: set_address_safe_run Let_def scripted_device_def idle_script_def)
  from g 1 2 3 show ?thesis by blast
qed

section \<open>Chunks\<close>

lemma fractions_gcd_eq:
  "fractions_gcd a b = (if b = 0 then a else sgn b * gcd a b)"
proof (induction a b rule: fractions_gcd.induct)
  case (1 a b)
  show ?case
  proof (cases "b = 0")
    case True
    then show ?thesis by (subst fractions_gcd.simps) simp
  next
    case False
    have red: "gcd b (a mod b) = gcd a b"
      by (metis gcd_red_int)
    show ?thesis
    proof (cases "a mod b = 0")
      case True
      then have "b dvd a" by auto
      then have "gcd a b = \<bar>b\<bar>" by simp
      moreover have "fractions_gcd a b = b"
        using False True 1 by (subst fractions_gcd.simps) simp
      ultimately show ?thesis using False by (simp add: mult_sgn_abs)
    next
      case nz: False
      have "sgn (a mod b) = sgn b"
        using False nz
        by (metis sgn_mod dvd_eq_mod_eq_0)
      with 1 False nz red show ?thesis
        by (subst fractions_gcd.simps) simp
    qed
  qed
qed

lemma transfer_size_eq: "fractions_gcd n MAX_TRANSFER_SIZE = gcd n 2048"
  by (simp add: fractions_gcd_eq MAX_TRANSFER_SIZE_def)

lemma transfer_size_pos: "0 < gcd n (2048 :: int)"
  by simp









lemma read_count_eq: "read_count s = Inr (sec_len s div gcd (sec_len s) 2048)"
proof -
  let ?t = "gcd (sec_len s) (2048 :: int)"
  have t: "0 < ?t" by (rule transfer_size_pos)
  have d: "?t dvd sec_len s" by simp
  then obtain q where q: "sec_len s = ?t * q" by (auto simp: dvd_def)
  have "sgn (sec_len s) * sgn ?t * (\<bar>sec_len s\<bar> div \<bar>?t\<bar>) = sec_len s div ?t"
  proof -
    have "\<bar>sec_len s\<bar> div \<bar>?t\<bar> = \<bar>q\<bar>"
      using t by (subst q) (simp add: abs_mult)
    moreover have "sec_len s div ?t = q" using t by (subst q) simp
    moreover have "sgn (sec_len s) = sgn q"
      using t by (subst q) (simp add: sgn_mult)
    ultimately show ?thesis using t by (simp add: mult_sgn_abs)
  qed
  then show ?thesis
    using t by (simp add: read_count_def int_of_quotient_def transfer_size_eq)
qed

section \<open>The requests of the passes\<close>

lemma map_filter_append: "List.map_filter f (xs @ ys) = List.map_filter f xs @ List.map_filter f ys"
  by (simp add: List.map_filter_def)

lemma requests_append:
  "erase_requests (xs @ ys) = erase_requests xs @ erase_requests ys"
  "write_requests (xs @ ys) = write_requests xs @ write_requests ys"
  "read_requests (xs @ ys) = read_requests xs @ read_requests ys"
  "phases (xs @ ys) = phases xs @ phases ys"
  by (simp_all add: erase_requests_def write_requests_def read_requests_def phases_def
      map_filter_append)

lemma requests_Nil [simp]:
  "erase_requests [] = []" "write_requests [] = []" "read_requests [] = []" "phases [] = []"
  by (simp_all add: erase_requests_def write_requests_def read_requests_def phases_def
      List.map_filter_def)

lemma requests_Cons:
  "erase_requests ((h, ev) # evs)
     = (case erase_of ev of None \<Rightarrow> erase_requests evs | Some a \<Rightarrow> a # erase_requests evs)"
  "write_requests ((h, ev) # evs)
     = (case write_of ev of None \<Rightarrow> write_requests evs | Some a \<Rightarrow> a # write_requests evs)"
  "read_requests ((h, ev) # evs)
     = (case read_of ev of None \<Rightarrow> read_requests evs | Some a \<Rightarrow> a # read_requests evs)"
  "phases ((h, ev) # evs)
     = (case phase_of ev of None \<Rightarrow> phases evs | Some a \<Rightarrow> a # phases evs)"
  by (simp_all add: erase_requests_def write_requests_def read_requests_def phases_def
      List.map_filter_def split: option.splits)

text \<open>Requests of one kind are found among the events of that phase only.\<close>

lemma requests_of_phases:
  "0 \<notin> set (phases evs) \<Longrightarrow> erase_requests evs = []"
  "1 \<notin> set (phases evs) \<Longrightarrow> write_requests evs = []"
  "2 \<notin> set (phases evs) \<Longrightarrow> read_requests evs = []"
proof (induction evs)
  case Nil
  { case 1 show ?case by simp }
  { case 2 show ?case by simp }
  { case 3 show ?case by simp }
next
  case (Cons e evs)
  obtain h ev where e: "e = (h, ev)" by (cases e)
  { case 1 with Cons.IH(1) show ?case by (cases ev) (auto simp: e requests_Cons) }
  { case 2 with Cons.IH(2) show ?case by (cases ev) (auto simp: e requests_Cons) }
  { case 3 with Cons.IH(3) show ?case by (cases ev) (auto simp: e requests_Cons) }
qed


lemma set_alternate_safe_result [simp]:
  "io_result (set_alternate_safe ops h alt w) = Inr ()"
  by (simp add: set_alternate_safe_def io_bind method_defs)

lemma set_alternate_safe_phases [simp]:
  "phases (io_events (set_alternate_safe ops h alt w)) = []"
  by (simp add: set_alternate_safe_def io_bind method_defs requests_Cons)

lemma set_address_safe_phases [simp]:
  "phases (io_events (set_address_safe ops g h a w)) = []"
  by (cases "g_dfudev g")
     (simp_all add: set_address_safe_unbound set_address_safe_run Let_def requests_Cons)





subsection \<open>Writing\<close>



lemma control_no_requests [simp]:
  "write_requests (io_events (set_alternate_safe ops h alt w)) = []"
  "write_requests (io_events (set_address_safe ops g h a w)) = []"
  "read_requests (io_events (set_alternate_safe ops h alt w)) = []"
  "read_requests (io_events (set_address_safe ops g h a w)) = []"
  by (rule requests_of_phases, simp)+



subsection \<open>Reading\<close>

lemma read_blocks_result:
  "\<exists>data'. io_result (read_blocks ops h t ks data w) = Inr data'"
  by (induction ks arbitrary: data w) (simp_all add: io_bind method_defs)


lemma read_blocks_requests:
  "read_requests (io_events (read_blocks ops h t ks data w)) = map (\<lambda>k. (k, t)) ks"
  by (induction ks arbitrary: data w)
     (simp_all add: io_bind method_defs requests_append requests_Cons)


lemma read_requests:
  "prefix (read_requests (io_events (read ops g h s w)))
     (map (\<lambda>k. (k, gcd (sec_len s) 2048)) [0..<nat (sec_len s div gcd (sec_len s) 2048)]) \<and>
   (\<forall>observed. io_result (read ops g h s w) = Inr observed \<longrightarrow>
      read_requests (io_events (read ops g h s w)) =
        map (\<lambda>k. (k, gcd (sec_len s) 2048)) [0..<nat (sec_len s div gcd (sec_len s) 2048)])"
proof (cases "io_result (set_address_safe ops g h (sec_addr s) (io_world (set_alternate_safe ops h (sec_alt s) w)))")
  case (Inl e)
  then show ?thesis
    by (simp add: read_def io_bind requests_append)
next
  case (Inr u)
  then show ?thesis
    using read_blocks_result [of ops h "gcd (sec_len s) 2048"]
    by (auto simp: read_def io_bind requests_append read_count_eq transfer_size_eq
        read_blocks_requests method_defs requests_Cons split: sum.splits)
qed

lemma length_blank [simp]: "length (blank n) = n"
  by (simp add: blank_def)





section \<open>The mismatch locator and the verification failure\<close>


lemma mismatch_loop_append:
  "mismatch_loop a b (xs @ ys) =
     (case mismatch_loop a b xs of None \<Rightarrow> mismatch_loop a b ys | Some i \<Rightarrow> Some i)"
  by (induction xs) auto

lemma mismatch_loop_upt:
  "(mismatch_loop a b [0..<n] = None \<longleftrightarrow> (\<forall>j<n. a ! j = b ! j)) \<and>
   (\<forall>i. mismatch_loop a b [0..<n] = Some i \<longrightarrow>
      i < n \<and> a ! i \<noteq> b ! i \<and> (\<forall>j<i. a ! j = b ! j))"
proof (induction n)
  case 0
  show ?case by simp
next
  case (Suc n)
  show ?case
  proof (cases "mismatch_loop a b [0..<n]")
    case None
    with Suc have eq: "\<forall>j<n. a ! j = b ! j" by simp
    from None have step: "mismatch_loop a b [0..<Suc n] = (if a ! n \<noteq> b ! n then Some n else None)"
      by (simp add: mismatch_loop_append)
    show ?thesis
    proof (cases "a ! n = b ! n")
      case True
      with step eq show ?thesis by (auto simp: less_Suc_eq)
    next
      case False
      with step eq show ?thesis by auto
    qed
  next
    case (Some i)
    then have "mismatch_loop a b [0..<Suc n] = Some i"
      by (simp add: mismatch_loop_append)
    with Some Suc show ?thesis by (auto simp: less_Suc_eq)
  qed
qed

lemma get_first_mismatch_index_equal_length:
  assumes "length array1 = length array2"
  shows "\<exists>r. get_first_mismatch_index array1 array2 = Inr r \<and>
           (r = None \<longleftrightarrow> array1 = array2) \<and>
           (\<forall>i. r = Some i \<longrightarrow>
              i < length array1 \<and> array1 ! i \<noteq> array2 ! i \<and> (\<forall>j<i. array1 ! j = array2 ! j))"
proof -
  define r where "r = mismatch_loop array1 array2 [0..<length array1]"
  have res: "get_first_mismatch_index array1 array2 = Inr r"
    using assms by (simp add: get_first_mismatch_index_def r_def)
  note loop = mismatch_loop_upt [of array1 array2 "length array1", folded r_def]
  have none: "r = None \<longleftrightarrow> array1 = array2"
  proof
    assume "r = None"
    with loop have eq: "\<forall>j<length array1. array1 ! j = array2 ! j" by blast
    show "array1 = array2"
    proof (rule nth_equalityI)
      show "length array1 = length array2" by (rule assms)
    next
      fix j assume "j < length array1"
      with eq show "array1 ! j = array2 ! j" by blast
    qed
  next
    assume "array1 = array2"
    then have "\<forall>j<length array1. array1 ! j = array2 ! j" by simp
    with loop show "r = None" by blast
  qed
  have some: "\<forall>i. r = Some i \<longrightarrow>
      i < length array1 \<and> array1 ! i \<noteq> array2 ! i \<and> (\<forall>j<i. array1 ! j = array2 ! j)"
    using loop by (rule conjunct2)
  from res none some show ?thesis by (intro exI [of _ r] conjI)
qed

lemma window_start: "i - i mod 16 = 16 * (i div 16)" for i :: nat
  by (simp add: minus_mod_eq_mult_div)

lemma verify_pass_mismatch:
  assumes "io_result (read ops g h s w) = Inr observed"
    and "get_first_mismatch_index observed expected = Inr (Some i)"
  shows "verify_pass ops g h ((s, expected) # rest) w =
           (Inl (verification_error s i observed expected),
            io_events (read ops g h s w), io_world (read ops g h s w))"
  by (rule io_eqI) (simp_all add: io_bind assms)

text \<open>
  Claim C8.  For arrays of equal length \<open>get_first_mismatch_index\<close> returns \<open>None\<close> exactly
  when they are equal, and otherwise the least index at which they differ; for arrays of
  different lengths it raises.  When the bytes read back from a sector first differ from
  the expected ones at index \<open>i\<close>, the verify pass raises at once (its events are those of
  reading this sector, no later sector is read) and the message names the address and the
  two windows of sixteen bytes that start at \<open>i\<close> rounded down to a multiple of sixteen.
\<close>

theorem mismatch_locator:
  "(length a = length b \<longrightarrow>
      (\<exists>r. get_first_mismatch_index a b = Inr r \<and>
           (r = None \<longleftrightarrow> a = b) \<and>
           (\<forall>i. r = Some i \<longrightarrow>
              i < length a \<and> a ! i \<noteq> b ! i \<and>
              (\<forall>j<i. a ! j = b ! j)))) \<and>
   (length a \<noteq> length b \<longrightarrow>
      get_first_mismatch_index a b = Inl (PyException ''arrays must be same size'')) \<and>
   (io_result (read ops g h s w) = Inr observed \<and>
    get_first_mismatch_index observed expected = Inr (Some i) \<longrightarrow>
      verify_pass ops g h ((s, expected) # rest) w =
        (Inl (verification_error s i observed expected),
         io_events (read ops g h s w), io_world (read ops g h s w)) \<and>
      verification_error s i observed expected =
        RuntimeError
          (''Verification failed around address 0x''
             @ format_0X 8 (sec_addr s + int (16 * (i div 16)))
             @ '':'' @ [CHR 0x0A] @ ''  expected: '' @ hex_snippet expected (16 * (i div 16))
             @ [CHR 0x0A] @ ''  observed: '' @ hex_snippet observed (16 * (i div 16))))"
proof (intro conjI impI)
  assume "length a = length b"
  then show "\<exists>r. get_first_mismatch_index a b = Inr r \<and>
           (r = None \<longleftrightarrow> a = b) \<and>
           (\<forall>i. r = Some i \<longrightarrow>
              i < length a \<and> a ! i \<noteq> b ! i \<and>
              (\<forall>j<i. a ! j = b ! j))"
    by (rule get_first_mismatch_index_equal_length)
next
  assume "length a \<noteq> length b"
  then show "get_first_mismatch_index a b = Inl (PyException ''arrays must be same size'')"
    by (simp add: get_first_mismatch_index_def)
next
  assume a: "io_result (read ops g h s w) = Inr observed \<and>
    get_first_mismatch_index observed expected = Inr (Some i)"
  then have a1: "io_result (read ops g h s w) = Inr observed"
    and a2: "get_first_mismatch_index observed expected = Inr (Some i)"
    by simp_all
  show "verify_pass ops g h ((s, expected) # rest) w =
        (Inl (verification_error s i observed expected),
         io_events (read ops g h s w), io_world (read ops g h s w))"
    using a1 a2 by (rule verify_pass_mismatch)
next
  show "verification_error s i observed expected =
        RuntimeError
          (''Verification failed around address 0x''
             @ format_0X 8 (sec_addr s + int (16 * (i div 16)))
             @ '':'' @ [CHR 0x0A] @ ''  expected: '' @ hex_snippet expected (16 * (i div 16))
             @ [CHR 0x0A] @ ''  observed: '' @ hex_snippet observed (16 * (i div 16)))"
    unfolding verification_error_def window_start ..
qed

lemmas run_eval = io_bind method_defs set_alternate_safe_def set_address_safe_def global_dfudev_def
  scripted_device_def read_count_def int_of_quotient_def fractions_gcd.simps MAX_TRANSFER_SIZE_def

lemma read_example:
  "io_result (read scripted_device \<lparr>g_dfudev = Some 0\<rparr> 0 sector_64 (\<lambda>h. read_script)) = Inr (blank 64)"
  "io_events (read scripted_device \<lparr>g_dfudev = Some 0\<rparr> 0 sector_64 (\<lambda>h. read_script)) =
     [(0, SetAlternate 0), (0, GetState DFU_IDLE), (0, SetAddress 0x08000000),
      (0, WaitWhileState DFU_DOWNLOAD_BUSY None (0, DFU_DOWNLOAD_IDLE)), (0, Abort),
      (0, WaitWhileState DFU_DOWNLOAD_SYNC None (0, DFU_IDLE)),
      (0, Read 0 64 (blank 64)), (0, Abort)]"
  by (simp_all add: read_def run_eval sector_64_def read_script_def)

lemma replicate_numeral_Cons: "replicate (numeral k) x = x # replicate (pred_numeral k) x"
  by (simp add: numeral_eq_Suc)

lemma list_update_numeral_Cons: "(x # xs)[numeral k := y] = x # xs[pred_numeral k := y]"
  by (simp add: numeral_eq_Suc)

lemma message_example:
  "verification_error sector_64 37 (blank 64) ((blank 64)[37 := 0]) =
     RuntimeError (''Verification failed around address 0x08000020:'' @ [CHR 0x0A]
       @ ''  expected: FF FF FF FF FF 00 FF FF FF FF FF FF FF FF FF FF'' @ [CHR 0x0A]
       @ ''  observed: FF FF FF FF FF FF FF FF FF FF FF FF FF FF FF FF'')"
  by (simp add: verification_error_def hex_snippet_def sector_64_def blank_def py_slice_def
      clip_index_def format_0X_def nat_digits.simps hex_digit_def replicate_numeral_Cons
      list_update_numeral_Cons)

lemma mismatch_example:
  "get_first_mismatch_index (blank 64) ((blank 64)[37 := 0]) = Inr (Some 37)"
proof -
  let ?a = "blank 64" and ?b = "(blank 64)[37 := 0]"
  have len: "length ?a = length ?b" by simp
  from get_first_mismatch_index_equal_length [OF len] obtain r where
    res: "get_first_mismatch_index ?a ?b = Inr r"
    and none: "r = None \<longleftrightarrow> ?a = ?b"
    and some: "\<forall>i. r = Some i \<longrightarrow> i < length ?a \<and> ?a ! i \<noteq> ?b ! i \<and> (\<forall>j<i. ?a ! j = ?b ! j)"
    by blast
  have "?a ! 37 \<noteq> ?b ! 37" by (simp add: blank_def)
  then have "?a \<noteq> ?b" by metis
  with none obtain i where i: "r = Some i" by auto
  with some have "?a ! i \<noteq> ?b ! i" by blast
  then have "i = 37" by (metis nth_list_update_neq)
  with i res show ?thesis by simp
qed

text \<open>A first mismatch at index 37: the window starts at 32.\<close>

theorem mismatch_at_37:
  "length (blank 64) = length ((blank 64)[37 := 0]) \<and>
   get_first_mismatch_index (blank 64) ((blank 64)[37 := 0]) = Inr (Some 37) \<and>
   (37 :: nat) - 37 mod 16 = 32 \<and>
   get_first_mismatch_index (blank 64) (blank 64) = Inr None \<and>
   length (blank 3) \<noteq> length (blank 4) \<and>
   get_first_mismatch_index (blank 3) (blank 4) = Inl (PyException ''arrays must be same size'') \<and>
   io_result (read scripted_device \<lparr>g_dfudev = Some 0\<rparr> 0 sector_64 (\<lambda>h. read_script))
     = Inr (blank 64) \<and>
   io_result (verify_pass scripted_device \<lparr>g_dfudev = Some 0\<rparr> 0
                [(sector_64, (blank 64)[37 := 0]), (sector_64k, blank 65536)] (\<lambda>h. read_script))
     = Inl (RuntimeError (''Verification failed around address 0x08000020:'' @ [CHR 0x0A]
         @ ''  expected: FF FF FF FF FF 00 FF FF FF FF FF FF FF FF FF FF'' @ [CHR 0x0A]
         @ ''  observed: FF FF FF FF FF FF FF FF FF FF FF FF FF FF FF FF'')) \<and>
   read_requests (io_events (verify_pass scripted_device \<lparr>g_dfudev = Some 0\<rparr> 0
                [(sector_64, (blank 64)[37 := 0]), (sector_64k, blank 65536)] (\<lambda>h. read_script)))
     = [(0, 64)]"
proof -
  let ?g = "\<lparr>g_dfudev = Some 0\<rparr>" and ?w = "\<lambda>h :: handle. read_script"
  let ?obs = "blank 64" and ?exp = "(blank 64)[37 := 0]"
  let ?rest = "[(sector_64k, blank 65536)]"
  have len: "length ?obs = length ?exp" by simp
  have rd: "io_result (read scripted_device ?g 0 sector_64 ?w) = Inr ?obs"
    by (rule read_example)
  have mm: "get_first_mismatch_index ?obs ?exp = Inr (Some 37)"
    by (rule mismatch_example)
  note loc = mismatch_locator [of ?obs ?exp scripted_device ?g 0 sector_64 ?w ?obs ?exp 37 ?rest]
  from loc rd mm have v: "verify_pass scripted_device ?g 0 ((sector_64, ?exp) # ?rest) ?w =
      (Inl (verification_error sector_64 37 ?obs ?exp),
       io_events (read scripted_device ?g 0 sector_64 ?w),
       io_world (read scripted_device ?g 0 sector_64 ?w))"
    by blast
  have res: "io_result (verify_pass scripted_device ?g 0 ((sector_64, ?exp) # ?rest) ?w)
      = Inl (RuntimeError (''Verification failed around address 0x08000020:'' @ [CHR 0x0A]
         @ ''  expected: FF FF FF FF FF 00 FF FF FF FF FF FF FF FF FF FF'' @ [CHR 0x0A]
         @ ''  observed: FF FF FF FF FF FF FF FF FF FF FF FF FF FF FF FF''))"
    unfolding v message_example by simp
  have evs: "read_requests (io_events (verify_pass scripted_device ?g 0 ((sector_64, ?exp) # ?rest) ?w))
      = [(0, 64)]"
    unfolding v by (simp add: read_example requests_Cons)
  from mismatch_locator [of ?obs ?obs scripted_device ?g 0 sector_64 ?w ?obs ?exp 37 ?rest]
  have same: "get_first_mismatch_index ?obs ?obs = Inr None"
    by auto
  have ne: "length (blank 3) \<noteq> length (blank 4)" by simp
  from mismatch_locator [of "blank 3" "blank 4" scripted_device ?g 0 sector_64 ?w ?obs ?exp 37 ?rest] ne
  have diff: "get_first_mismatch_index (blank 3) (blank 4) = Inl (PyException ''arrays must be same size'')"
    by blast
  have win: "(37 :: nat) - 37 mod 16 = 32" by simp
  from len mm win same ne diff rd res evs show ?thesis by blast
qed

section \<open>Properties of the Program Sequencer\<close>












lemma sector_64_fields [simp]:
  "sec_len sector_64 = 64" "sec_addr sector_64 = 0x08000000" "sec_alt sector_64 = 0"
  by (simp_all add: sector_64_def)








text \<open>
  The run as a whole: a descriptor that does not parse ends it before any request is
  issued; otherwise it is the run of the passes over the populated sectors, with the
  global \<open>dfudev\<close> bound to the handle.
\<close>

lemma program_device_unfold:
  "program_device ops h hexfile w =
     (case py_list (get_device_sectors (dev_alternates ops (w h))) of
        Inl e \<Rightarrow> (Inl e, [], w)
      | Inr sectors \<Rightarrow>
          run_passes ops \<lparr>g_dfudev = Some h\<rparr> h (populate_sectors sectors hexfile) w)"
  by (simp add: program_device_def raise_io_def split: sum.splits)

end
